theory Spec2Isabelle
  imports Main
begin

section \<open>Host values and errors\<close>

text \<open>
  The values that callers pass as lookup values and keyword options. Python compares
  \<open>True\<close> and \<open>1\<close> as equal, which \<open>py_eq\<close> keeps.
\<close>

datatype pyval = PNone | PBool bool | PInt int | PStr string | PList "pyval list"

fun truthy :: "pyval \<Rightarrow> bool" where
  "truthy PNone = False"
| "truthy (PBool b) = b"
| "truthy (PInt n) = (n \<noteq> 0)"
| "truthy (PStr s) = (s \<noteq> [])"
| "truthy (PList xs) = (xs \<noteq> [])"

text \<open>\<open>a and b\<close>, \<open>a or b\<close>: the operand itself is returned, not a boolean.\<close>

definition py_and :: "pyval \<Rightarrow> pyval \<Rightarrow> pyval" where
  "py_and a b = (if truthy a then b else a)"

definition py_or :: "pyval \<Rightarrow> pyval \<Rightarrow> pyval" where
  "py_or a b = (if truthy a then a else b)"

fun as_int :: "pyval \<Rightarrow> int option" where
  "as_int (PBool b) = Some (if b then 1 else 0)"
| "as_int (PInt n) = Some n"
| "as_int _ = None"

fun py_eq :: "pyval \<Rightarrow> pyval \<Rightarrow> bool" where
  "py_eq a b = (case (as_int a, as_int b) of
      (Some m, Some n) \<Rightarrow> m = n
    | (None, None) \<Rightarrow> a = b
    | _ \<Rightarrow> False)"

text \<open>
  Every exception the module raises, or lets the interpreter raise, is a value:
  \<^item> \<open>NoProperty\<close>: \<open>InvalidRequestError("Entity '%s' has no property '%s'")\<close>;
  \<^item> \<open>NoIdea\<close>: \<open>ValueError('No idea what to do with %r' % token)\<close>;
  \<^item> \<open>OrderByTable\<close>: \<open>ValueError('Tried to order by table, column expected')\<close>;
  \<^item> \<open>UnexpectedArgument\<close>: \<open>TypeError('Unexpected argument %r' % key)\<close>;
  \<^item> \<open>BadDepth\<close>: \<open>TypeError('Depth can only be 1 or None currently')\<close>;
  \<^item> \<open>TypeError\<close>, \<open>AttributeError\<close>, \<open>IndexError\<close>: raised by the interpreter (a call
    with the wrong number of arguments, \<open>*None\<close>, a missing attribute, \<open>''[0]\<close>).
\<close>

datatype error =
    NoProperty string string
  | NoIdea string
  | OrderByTable
  | UnexpectedArgument string
  | BadDepth
  | TypeError
  | AttributeError
  | IndexError

section \<open>Strings\<close>

text \<open>\<open>s.split('__')\<close>: the separator is matched left to right without overlap, and
  the result always has at least one element.\<close>

fun split_dunder :: "string \<Rightarrow> string \<Rightarrow> string list" where
  "split_dunder cur [] = [cur]"
| "split_dunder cur [a] = [cur @ [a]]"
| "split_dunder cur (a # b # rest) =
     (if a = CHR ''_'' \<and> b = CHR ''_'' then cur # split_dunder [] rest
      else split_dunder (cur @ [a]) (b # rest))"

text \<open>\<open>'__' in s\<close>.\<close>

fun has_dunder :: "string \<Rightarrow> bool" where
  "has_dunder (a # b # rest) = ((a = CHR ''_'' \<and> b = CHR ''_'') \<or> has_dunder (b # rest))"
| "has_dunder s = False"

text \<open>\<open>s.replace('__', '.')\<close>.\<close>

fun replace_dunder :: "string \<Rightarrow> string" where
  "replace_dunder (a # b # rest) =
     (if a = CHR ''_'' \<and> b = CHR ''_'' then CHR ''.'' # replace_dunder rest
      else a # replace_dunder (b # rest))"
| "replace_dunder s = s"

text \<open>\<open>s.replace('%', '%%')\<close>.\<close>

definition replace_percent :: "string \<Rightarrow> string" where
  "replace_percent s = concat (map (\<lambda>c. if c = CHR ''%'' then ''%%'' else [c]) s)"

section \<open>The mapped schema and the base query\<close>

text \<open>
  The mapping layer is an external collaborator: \<open>getattr(entity, key)\<close> is a lookup in a
  schema that is a parameter of every operation. An attribute of a mapped class is an
  instrumented column, an instrumented relationship (with its target entity), or a
  user-defined attribute, which has no \<open>impl\<close>.
\<close>

type_synonym entity = string

datatype descriptor =
    Column entity string
  | Relationship entity string entity
  | UserAttr entity string

type_synonym schema = "entity \<Rightarrow> string \<Rightarrow> descriptor option"

definition entity_descriptor :: "schema \<Rightarrow> entity \<Rightarrow> string \<Rightarrow> error + descriptor" where
  "entity_descriptor S ent key =
     (case S ent key of None \<Rightarrow> Inl (NoProperty ent key) | Some d \<Rightarrow> Inr d)"

text \<open>\<open>column.impl.uses_objects\<close>.\<close>

fun uses_objects :: "descriptor \<Rightarrow> error + bool" where
  "uses_objects (Column _ _) = Inr False"
| "uses_objects (Relationship _ _ _) = Inr True"
| "uses_objects (UserAttr _ _) = Inl AttributeError"

text \<open>
  What the lookup operators build. \<open>operators.gt\<close>, \<open>lt\<close>, \<open>ge\<close>, \<open>le\<close> and \<open>eq\<close> are
  the functions of Python's \<open>operator\<close> module, so \<open>operators.eq(c, x)\<close> is \<open>c == x\<close>. The
  other registered functions belong to \<open>sqlalchemy.sql.operators\<close>; the result of calling
  one is kept as the call itself.
\<close>

datatype cmp = Gt | Lt | Ge | Le | Eq

datatype libfn = contains_op | in_op | ilike_op | startswith_op | endswith_op | between_op

datatype expr =
    Compare cmp descriptor pyval
  | OpCall libfn descriptor "pyval list"
  | ILike descriptor pyval
  | ExtractEq string descriptor pyval
  | Not expr

text \<open>A filter criterion is whatever the operator returned: a clause, or a host value.\<close>

datatype crit = Clause expr | Host pyval

text \<open>An ordering criterion: a column, \<open>column.desc()\<close>, or what the caller passed.\<close>

datatype order_key = Key descriptor | Desc descriptor | Given pyval

datatype load_option = joinedload "string list" | joinedload_all "string list"

text \<open>
  The base query is an external collaborator too. A query is its base entity and the
  generative calls made on it so far, in order; every method returns a new query.
\<close>

datatype call =
    Join descriptor
  | Filter crit
  | OrderBy "order_key list"
  | Options load_option
  | ResetJoinpoint

record query =
  base :: entity
  calls :: "call list"

definition join_q :: "query \<Rightarrow> descriptor \<Rightarrow> query" where
  "join_q q d = q\<lparr>calls := calls q @ [Join d]\<rparr>"

definition filter_q :: "query \<Rightarrow> crit \<Rightarrow> query" where
  "filter_q q c = q\<lparr>calls := calls q @ [Filter c]\<rparr>"

definition order_by_base :: "query \<Rightarrow> order_key list \<Rightarrow> query" where
  "order_by_base q ks = q\<lparr>calls := calls q @ [OrderBy ks]\<rparr>"

definition options_q :: "query \<Rightarrow> load_option \<Rightarrow> query" where
  "options_q q opt = q\<lparr>calls := calls q @ [Options opt]\<rparr>"

definition reset_joinpoint :: "query \<Rightarrow> query" where
  "reset_joinpoint q = q\<lparr>calls := calls q @ [ResetJoinpoint]\<rparr>"

text \<open>\<open>q._joinpoint_zero()\<close>: the target of the last join since the last reset.\<close>

fun joinpoint_after :: "entity \<Rightarrow> entity \<Rightarrow> call list \<Rightarrow> entity" where
  "joinpoint_after b e [] = e"
| "joinpoint_after b e (Join (Relationship _ _ t) # cs) = joinpoint_after b t cs"
| "joinpoint_after b e (ResetJoinpoint # cs) = joinpoint_after b b cs"
| "joinpoint_after b e (_ # cs) = joinpoint_after b e cs"

definition joinpoint_zero :: "query \<Rightarrow> entity" where
  "joinpoint_zero q = joinpoint_after (base q) (base q) (calls q)"

section \<open>The operator registry\<close>

text \<open>
  \<open>sqlalchemy.util.to_list(x)\<close>: \<open>None\<close> stays \<open>None\<close>, a list is returned as it is, any
  other value (strings included) is wrapped in a one-element list.
\<close>

fun to_list :: "pyval \<Rightarrow> pyval list option" where
  "to_list PNone = None"
| "to_list (PList xs) = Some xs"
| "to_list x = Some [x]"

text \<open>
  A registered operator is called as \<open>op(column, *args)\<close>; a call whose number of
  arguments does not fit the signature raises \<open>TypeError\<close>. The functions of the
  \<open>operator\<close> module take exactly two arguments.
\<close>

definition compare_op :: "cmp \<Rightarrow> descriptor \<Rightarrow> pyval list \<Rightarrow> error + crit" where
  "compare_op k c args =
     (case args of [x] \<Rightarrow> Inr (Clause (Compare k c x)) | _ \<Rightarrow> Inl TypeError)"

text \<open>
  The signatures of \<open>sqlalchemy.sql.operators\<close>: \<open>in_op(a, b)\<close>, \<open>between_op(a, b, c,
  symmetric=False)\<close>, and \<open>contains_op\<close>, \<open>ilike_op\<close>, \<open>startswith_op\<close>, \<open>endswith_op\<close>
  each \<open>(a, b, escape=None)\<close>. The pair is the least and the greatest number of
  positional arguments accepted after the column.
\<close>

fun lib_arity :: "libfn \<Rightarrow> nat \<times> nat" where
  "lib_arity in_op = (1, 1)"
| "lib_arity between_op = (2, 3)"
| "lib_arity _ = (1, 2)"

definition lib_op :: "libfn \<Rightarrow> descriptor \<Rightarrow> pyval list \<Rightarrow> error + crit" where
  "lib_op f c args =
     (if fst (lib_arity f) \<le> length args \<and> length args \<le> snd (lib_arity f)
      then Inr (Clause (OpCall f c args)) else Inl TypeError)"

text \<open>The lambdas of the table, each of two parameters \<open>c, x\<close>.\<close>

definition op_istartswith :: "descriptor \<Rightarrow> pyval list \<Rightarrow> error + crit" where
  "op_istartswith c args =
     (case args of
        [x] \<Rightarrow> (case x of
                  PStr s \<Rightarrow> Inr (Clause (ILike c (PStr (replace_percent s @ ''%''))))
                | _ \<Rightarrow> Inl AttributeError)
      | _ \<Rightarrow> Inl TypeError)"

definition op_iendswith :: "descriptor \<Rightarrow> pyval list \<Rightarrow> error + crit" where
  "op_iendswith c args =
     (case args of
        [x] \<Rightarrow> (case x of
                  PStr s \<Rightarrow> Inr (Clause (ILike c (PStr (''%'' @ replace_percent s))))
                | _ \<Rightarrow> Inl AttributeError)
      | _ \<Rightarrow> Inl TypeError)"

text \<open>
  \<open>lambda c, x: x and c is not None or c is None\<close>. \<open>is\<close> and \<open>is not\<close> bind tighter than
  \<open>and\<close>, which binds tighter than \<open>or\<close>; they compare the identity of the descriptor
  object with \<open>None\<close>, and a descriptor is never \<open>None\<close>.
\<close>

definition is_None :: "descriptor \<Rightarrow> bool" where
  "is_None c = False"

definition op_isnull :: "descriptor \<Rightarrow> pyval list \<Rightarrow> error + crit" where
  "op_isnull c args =
     (case args of
        [x] \<Rightarrow> Inr (Host (py_or (py_and x (PBool (\<not> is_None c))) (PBool (is_None c))))
      | _ \<Rightarrow> Inl TypeError)"

definition op_extract :: "string \<Rightarrow> descriptor \<Rightarrow> pyval list \<Rightarrow> error + crit" where
  "op_extract field c args =
     (case args of [x] \<Rightarrow> Inr (Clause (ExtractEq field c x)) | _ \<Rightarrow> Inl TypeError)"

definition underscore_operators ::
  "string \<Rightarrow> (descriptor \<Rightarrow> pyval list \<Rightarrow> error + crit) option" where
  "underscore_operators = map_of
     [(''gt'', compare_op Gt),
      (''lt'', compare_op Lt),
      (''gte'', compare_op Ge),
      (''lte'', compare_op Le),
      (''contains'', lib_op contains_op),
      (''in'', lib_op in_op),
      (''exact'', compare_op Eq),
      (''iexact'', lib_op ilike_op),
      (''startswith'', lib_op startswith_op),
      (''istartswith'', op_istartswith),
      (''iendswith'', op_iendswith),
      (''endswith'', lib_op endswith_op),
      (''isnull'', op_isnull),
      (''range'', lib_op between_op),
      (''year'', op_extract ''year''),
      (''month'', op_extract ''month''),
      (''day'', op_extract ''day'')]"

section \<open>filter_by and exclude_by\<close>

text \<open>
  \<open>~expr\<close>: a clause is wrapped in a negation; on a host boolean or integer \<open>~\<close> is the
  bitwise complement (\<open>~True\<close> is \<open>-2\<close>); no other host value supports it.
\<close>

fun invert :: "crit \<Rightarrow> error + crit" where
  "invert (Clause e) = Inr (Clause (Not e))"
| "invert (Host (PBool b)) = Inr (Host (PInt (if b then - 2 else - 1)))"
| "invert (Host (PInt n)) = Inr (Host (PInt (- n - 1)))"
| "invert (Host _) = Inl TypeError"

definition negate_if :: "bool \<Rightarrow> crit \<Rightarrow> error + crit" where
  "negate_if negate e = (if \<not> negate then Inr e else invert e)"

text \<open>
  One round of the token loop of \<open>_filter_or_exclude\<close>; the loop state is the query \<open>q\<close>
  and the cell \<open>column\<close>.
\<close>

fun token_step ::
  "schema \<Rightarrow> bool \<Rightarrow> pyval \<Rightarrow> query \<times> descriptor option \<Rightarrow> string
     \<Rightarrow> error + (query \<times> descriptor option)" where
  "token_step S negate v (q, None) token =
     (case entity_descriptor S (joinpoint_zero q) token of
        Inl e \<Rightarrow> Inl e
      | Inr column \<Rightarrow>
          (case uses_objects column of
             Inl e \<Rightarrow> Inl e
           | Inr True \<Rightarrow> Inr (join_q q column, None)
           | Inr False \<Rightarrow> Inr (q, Some column)))"
| "token_step S negate v (q, Some column) token =
     (case underscore_operators token of
        Some op \<Rightarrow>
          (case to_list v of
             None \<Rightarrow> Inl TypeError
           | Some args \<Rightarrow>
               (case op column args of
                  Inl e \<Rightarrow> Inl e
                | Inr ex \<Rightarrow>
                    (case negate_if negate ex of
                       Inl e \<Rightarrow> Inl e
                     | Inr ne \<Rightarrow> Inr (filter_q q ne, None))))
      | None \<Rightarrow> Inl (NoIdea token))"

fun tokens_loop ::
  "schema \<Rightarrow> bool \<Rightarrow> pyval \<Rightarrow> query \<times> descriptor option \<Rightarrow> string list
     \<Rightarrow> error + (query \<times> descriptor option)" where
  "tokens_loop S negate v st [] = Inr st"
| "tokens_loop S negate v st (t # ts) =
     (case token_step S negate v st t of
        Inl e \<Rightarrow> Inl e
      | Inr st' \<Rightarrow> tokens_loop S negate v st' ts)"

text \<open>The body of the loop over the keyword entries.\<close>

definition lookup_entry :: "schema \<Rightarrow> bool \<Rightarrow> query \<Rightarrow> string \<times> pyval \<Rightarrow> error + query" where
  "lookup_entry S negate q kv =
     (case tokens_loop S negate (snd kv) (q, None) (split_dunder [] (fst kv)) of
        Inl e \<Rightarrow> Inl e
      | Inr (q', None) \<Rightarrow> Inr (reset_joinpoint q')
      | Inr (q', Some column) \<Rightarrow>
          (case negate_if negate (Clause (Compare Eq column (snd kv))) of
             Inl e \<Rightarrow> Inl e
           | Inr ne \<Rightarrow> Inr (reset_joinpoint (filter_q q' ne))))"

text \<open>\<open>kwargs\<close> is the keyword dictionary, in the order the caller wrote the entries.\<close>

fun filter_or_exclude ::
  "schema \<Rightarrow> bool \<Rightarrow> query \<Rightarrow> (string \<times> pyval) list \<Rightarrow> error + query" where
  "filter_or_exclude S negate q [] = Inr q"
| "filter_or_exclude S negate q (kv # kwargs) =
     (case lookup_entry S negate q kv of
        Inl e \<Rightarrow> Inl e
      | Inr q' \<Rightarrow> filter_or_exclude S negate q' kwargs)"

definition filter_by :: "schema \<Rightarrow> query \<Rightarrow> (string \<times> pyval) list \<Rightarrow> error + query" where
  "filter_by S q kwargs = filter_or_exclude S False q kwargs"

definition exclude_by :: "schema \<Rightarrow> query \<Rightarrow> (string \<times> pyval) list \<Rightarrow> error + query" where
  "exclude_by S q kwargs = filter_or_exclude S True q kwargs"

section \<open>order_by\<close>

text \<open>A positional argument of \<open>order_by\<close> is a string or an already built criterion.\<close>

datatype order_arg = StrArg string | OtherArg order_key

text \<open>
  One round of the token loop of \<open>order_by\<close>; the loop state is the local query \<open>q\<close>,
  the cell \<open>column\<close> and the list \<open>joins_needed\<close>.
\<close>

fun order_token_step ::
  "schema \<Rightarrow> query \<times> descriptor option \<times> descriptor list \<Rightarrow> string
     \<Rightarrow> error + (query \<times> descriptor option \<times> descriptor list)" where
  "order_token_step S (q, column, joins_needed) token =
     (case entity_descriptor S (joinpoint_zero q) token of
        Inl e \<Rightarrow> Inl e
      | Inr col \<Rightarrow>
          (case uses_objects col of
             Inl e \<Rightarrow> Inl e
           | Inr True \<Rightarrow> Inr (join_q q col, None, joins_needed @ [col])
           | Inr False \<Rightarrow> Inr (q, Some col, joins_needed)))"

fun order_tokens_loop ::
  "schema \<Rightarrow> query \<times> descriptor option \<times> descriptor list \<Rightarrow> string list
     \<Rightarrow> error + (query \<times> descriptor option \<times> descriptor list)" where
  "order_tokens_loop S st [] = Inr st"
| "order_tokens_loop S st (t # ts) =
     (case order_token_step S st t of
        Inl e \<Rightarrow> Inl e
      | Inr st' \<Rightarrow> order_tokens_loop S st' ts)"

text \<open>
  The body of the loop over the arguments, for a string argument: \<open>arg[0]\<close> raises
  \<open>IndexError\<close> on the empty string.
\<close>

definition order_term ::
  "schema \<Rightarrow> query \<Rightarrow> descriptor list \<Rightarrow> string \<Rightarrow> error + (order_key \<times> descriptor list)" where
  "order_term S self joins_needed arg =
     (case arg of
        [] \<Rightarrow> Inl IndexError
      | c # rest \<Rightarrow>
          (let sign = (c = CHR ''+'' \<or> c = CHR ''-'');
               desc = (sign \<and> c = CHR ''-'');
               arg' = (if sign then rest else arg)
           in case order_tokens_loop S (self, None, joins_needed) (split_dunder [] arg') of
                Inl e \<Rightarrow> Inl e
              | Inr (q, None, js) \<Rightarrow> Inl OrderByTable
              | Inr (q, Some column, js) \<Rightarrow>
                  Inr (if desc then Desc column else Key column, js)))"

fun order_args_loop ::
  "schema \<Rightarrow> query \<Rightarrow> descriptor list \<Rightarrow> order_arg list
     \<Rightarrow> error + (order_key list \<times> descriptor list)" where
  "order_args_loop S self joins_needed [] = Inr ([], joins_needed)"
| "order_args_loop S self joins_needed (OtherArg k # args) =
     (case order_args_loop S self joins_needed args of
        Inl e \<Rightarrow> Inl e
      | Inr (ks, js) \<Rightarrow> Inr (k # ks, js))"
| "order_args_loop S self joins_needed (StrArg arg # args) =
     (case order_term S self joins_needed arg of
        Inl e \<Rightarrow> Inl e
      | Inr (k, js1) \<Rightarrow>
          (case order_args_loop S self js1 args of
             Inl e \<Rightarrow> Inl e
           | Inr (ks, js) \<Rightarrow> Inr (k # ks, js)))"

text \<open>The ordering is set on \<open>self\<close> first; then one \<open>join\<close> call per element of
  \<open>joins_needed\<close>.\<close>

definition order_by :: "schema \<Rightarrow> query \<Rightarrow> order_arg list \<Rightarrow> error + query" where
  "order_by S self args =
     (case order_args_loop S self [] args of
        Inl e \<Rightarrow> Inl e
      | Inr (ks, joins_needed) \<Rightarrow> Inr (foldl join_q (order_by_base self ks) joins_needed))"

text \<open>
  The relationships that a path of tokens passes when it is walked through the schema
  from an entity, read off the schema alone: a token that names a relationship of the
  entity reached so far leads on to the target entity of that relationship, and any other
  token leaves the entity as it is.
\<close>

fun path_relationships :: "schema \<Rightarrow> entity \<Rightarrow> string list \<Rightarrow> descriptor list" where
  "path_relationships S ent [] = []"
| "path_relationships S ent (t # ts) =
     (case S ent t of
        Some (Relationship a b target) \<Rightarrow>
          Relationship a b target # path_relationships S target ts
      | _ \<Rightarrow> path_relationships S ent ts)"

text \<open>An ordering term without its optional leading sign.\<close>

definition strip_sign :: "string \<Rightarrow> string" where
  "strip_sign arg =
     (case arg of
        [] \<Rightarrow> []
      | c # rest \<Rightarrow> if c = CHR ''+'' \<or> c = CHR ''-'' then rest else arg)"

text \<open>
  The relationships that an argument of \<open>order_by\<close> passes from an entity: those of its
  path when it is a string, none when it is a built criterion.
\<close>

definition arg_relationships :: "schema \<Rightarrow> entity \<Rightarrow> order_arg \<Rightarrow> descriptor list" where
  "arg_relationships S ent a =
     (case a of
        OtherArg _ \<Rightarrow> []
      | StrArg arg \<Rightarrow> path_relationships S ent (split_dunder [] (strip_sign arg)))"

text \<open>The descriptors of the \<open>join\<close> calls made on a query, in order.\<close>

fun joins_of :: "call list \<Rightarrow> descriptor list" where
  "joins_of [] = []"
| "joins_of (Join d # cs) = d # joins_of cs"
| "joins_of (_ # cs) = joins_of cs"

section \<open>select_related\<close>

text \<open>The loop over the columns: each is rewritten, and a dot in any sets \<open>need_all\<close>.\<close>

fun rewrite_columns :: "bool \<Rightarrow> string list \<Rightarrow> bool \<times> string list" where
  "rewrite_columns need_all [] = (need_all, [])"
| "rewrite_columns need_all (column # columns) =
     (let column' = replace_dunder column;
          r = rewrite_columns (if CHR ''.'' \<in> set column' then True else need_all) columns
      in (fst r, column' # snd r))"

text \<open>
  \<open>options\<close> is the keyword dictionary; \<open>options.pop('depth', None)\<close> reads the depth
  and leaves the other entries. \<open>depth not in (None, 1)\<close> compares with \<open>==\<close>;
  \<open>need_all = depth is None\<close> compares the identity.
\<close>

definition pop_depth :: "(string \<times> pyval) list \<Rightarrow> pyval" where
  "pop_depth options = (case map_of options ''depth'' of None \<Rightarrow> PNone | Some d \<Rightarrow> d)"

definition select_related ::
  "query \<Rightarrow> string list \<Rightarrow> (string \<times> pyval) list \<Rightarrow> error + query" where
  "select_related self columns options =
     (let depth = pop_depth options;
          options' = filter (\<lambda>kv. fst kv \<noteq> ''depth'') options
      in case options' of
           kv # _ \<Rightarrow> Inl (UnexpectedArgument (fst kv))
         | [] \<Rightarrow>
             if \<not> (py_eq depth PNone \<or> py_eq depth (PInt 1)) then Inl BadDepth
             else (let r = rewrite_columns (depth = PNone) columns
                   in Inr (options_q self
                        (if fst r then joinedload_all (snd r) else joinedload (snd r)))))"

section \<open>Loaded properties and serialization\<close>

text \<open>
  What \<open>inspect(instance)\<close> exposes of an instance: the keys of the mapper's column
  attributes and relationships, and the load state kept by the storage layer.
\<close>

record instance_state =
  column_attrs :: "string list"
  relationships :: "string list"
  transient :: bool
  unloaded :: "string set"
  expired :: bool
  expired_attributes :: "string set"

definition get_entity_propnames :: "instance_state \<Rightarrow> string set" where
  "get_entity_propnames ins = set (column_attrs ins @ relationships ins)"

definition get_entity_loaded_propnames :: "instance_state \<Rightarrow> string set" where
  "get_entity_loaded_propnames ins =
     (let keynames = get_entity_propnames ins;
          keynames = (if \<not> transient ins then keynames - unloaded ins else keynames);
          keynames = (if expired ins then keynames \<union> expired_attributes ins else keynames)
      in keynames)"

text \<open>
  A model instance: its state, the value \<open>getattr\<close> reads for each name, and the class
  attribute \<open>__exclude_columns__\<close> when the class declares one.
\<close>

record model_instance =
  state :: instance_state
  getattr :: "string \<Rightarrow> pyval"
  exclude_columns_attr :: "string list option"

text \<open>\<open>__json__(self, exclude_columns=set())\<close>: the dictionary comprehension.\<close>

definition json :: "model_instance \<Rightarrow> string set \<Rightarrow> (string \<rightharpoonup> pyval)" where
  "json self exclude_columns =
     (\<lambda>name. if name \<in> get_entity_loaded_propnames (state self) - exclude_columns
             then Some (getattr self name) else None)"

text \<open>
  \<open>DynamicJSONEncoder.default\<close>: an object is a model instance, which has \<open>__json__\<close>,
  or something else, which the base encoder rejects.
\<close>

datatype obj = Model model_instance | Plain pyval

definition class_exclude_columns :: "model_instance \<Rightarrow> string set" where
  "class_exclude_columns m =
     (case exclude_columns_attr m of None \<Rightarrow> {} | Some xs \<Rightarrow> set xs)"

definition encoder_default :: "obj \<Rightarrow> error + (string \<rightharpoonup> pyval)" where
  "encoder_default ob =
     (case ob of
        Model m \<Rightarrow> (let exclude_columns = class_exclude_columns m in Inr (json m exclude_columns))
      | Plain _ \<Rightarrow> Inl TypeError)"

section \<open>The example of the module's documentation\<close>

text \<open>
  \<open>Post\<close> has the columns \<open>id\<close> and \<open>pub_date\<close> and the relationship \<open>blog\<close> to \<open>Blog\<close>,
  which has the columns \<open>id\<close> and \<open>name\<close>.
\<close>

definition blog_schema :: schema where
  "blog_schema ent key =
     (if ent = ''Post'' then
        map_of [(''id'', Column ''Post'' ''id''),
                (''pub_date'', Column ''Post'' ''pub_date''),
                (''blog'', Relationship ''Post'' ''blog'' ''Blog'')] key
      else if ent = ''Blog'' then
        map_of [(''id'', Column ''Blog'' ''id''),
                (''name'', Column ''Blog'' ''name'')] key
      else None)"

definition post_query :: query where
  "post_query = \<lparr>base = ''Post'', calls = []\<rparr>"

definition post_instance :: model_instance where
  "post_instance =
     \<lparr>state = \<lparr>column_attrs = [''id'', ''pub_date''], relationships = [''blog''],
                transient = False, unloaded = {''blog''}, expired = False,
                expired_attributes = {}\<rparr>,
      getattr = (\<lambda>name. if name = ''id'' then PInt 42 else PNone),
      exclude_columns_attr = Some [''pub_date'']\<rparr>"

definition transient_state :: instance_state where
  "transient_state =
     \<lparr>column_attrs = [''id'', ''name''], relationships = [],
      transient = True, unloaded = {''name''}, expired = False,
      expired_attributes = {}\<rparr>"

section \<open>Properties\<close>

text \<open>
  C9. With no keyword entries \<open>filter_by\<close> and \<open>exclude_by\<close> return the query they were
  called on: no predicate, no join and no join-point reset is added.
\<close>

theorem filter_by_empty_identity:
  "filter_by S q [] = Inr q \<and> exclude_by S q [] = Inr q"
  by (simp add: filter_by_def exclude_by_def)

theorem filter_by_empty_identity_witness:
  "filter_by blog_schema post_query [] = Inr \<lparr>base = ''Post'', calls = []\<rparr>
   \<and> exclude_by blog_schema post_query [] = Inr \<lparr>base = ''Post'', calls = []\<rparr>"
  using filter_by_empty_identity [of blog_schema post_query]
  by (simp add: post_query_def)

subsection \<open>Translating one lookup\<close>

text \<open>
  C1. For the operator \<open>in\<close> and the value \<open>[1, 2, 3]\<close>, the registered constructor
  applied to the column and the value builds the membership clause
  \<open>in_op(column, [1, 2, 3])\<close>, but translating \<open>id__in=[1, 2, 3]\<close> builds no predicate:
  the elements of the list are passed as separate arguments and the call raises
  \<open>TypeError\<close>, with \<open>negate\<close> false and with \<open>negate\<close> true.
\<close>

theorem in_lookup_misses_constructor:
  "map_option (\<lambda>op. op (Column ''Post'' ''id'') [PList [PInt 1, PInt 2, PInt 3]])
       (underscore_operators ''in'')
     = Some (Inr (Clause (OpCall in_op (Column ''Post'' ''id'')
                    [PList [PInt 1, PInt 2, PInt 3]])))
   \<and> filter_by blog_schema post_query [(''id__in'', PList [PInt 1, PInt 2, PInt 3])]
     = Inl TypeError
   \<and> exclude_by blog_schema post_query [(''id__in'', PList [PInt 1, PInt 2, PInt 3])]
     = Inl TypeError"
  by (simp add: filter_by_def exclude_by_def lookup_entry_def blog_schema_def post_query_def
      entity_descriptor_def joinpoint_zero_def underscore_operators_def lib_op_def)

text \<open>
  What one entry adds in the other cases. A name without the separator that does not
  end in an underscore, followed by the separator and an operator name, splits into
  these two tokens.
\<close>

lemma split_dunder_plain: "\<not> has_dunder s \<Longrightarrow> split_dunder cur s = [cur @ s]"
  by (induction s arbitrary: cur rule: has_dunder.induct) auto

lemma split_dunder_key:
  "\<not> has_dunder s \<Longrightarrow> s = [] \<or> last s \<noteq> CHR ''_'' \<Longrightarrow>
   split_dunder cur (s @ ''__'' @ t) = (cur @ s) # split_dunder [] t"
  by (induction s arbitrary: cur rule: has_dunder.induct) auto

lemma operator_name_plain:
  "underscore_operators opn = Some op \<Longrightarrow> \<not> has_dunder opn"
proof -
  assume "underscore_operators opn = Some op"
  then have "opn \<in> dom underscore_operators" by blast
  then have "opn \<in> {''gt'', ''lt'', ''gte'', ''lte'', ''contains'', ''in'', ''exact'', ''iexact'',
      ''startswith'', ''istartswith'', ''iendswith'', ''endswith'', ''isnull'', ''range'',
      ''year'', ''month'', ''day''}"
    unfolding underscore_operators_def dom_map_of_conv_image_fst by simp
  then show ?thesis by auto
qed

lemma registered_builds_clause:
  assumes "underscore_operators opn = Some op" and "opn \<noteq> ''isnull''"
    and "op c args = Inr r"
  shows "\<exists>e. r = Clause e"
proof -
  note m = assms(1) [unfolded underscore_operators_def, THEN map_of_SomeD]
  from m assms(2) have
    "op \<in> {compare_op Gt, compare_op Lt, compare_op Ge, compare_op Le, compare_op Eq,
           lib_op contains_op, lib_op in_op, lib_op ilike_op, lib_op startswith_op,
           lib_op endswith_op, lib_op between_op, op_istartswith, op_iendswith,
           op_extract ''year'', op_extract ''month'', op_extract ''day''}"
    by auto
  with assms(3) show ?thesis
    by (auto simp: compare_op_def lib_op_def op_istartswith_def op_iendswith_def
        op_extract_def split: list.splits pyval.splits if_splits)
qed

text \<open>
  A key whose tokens are a column of the entity at the join point and a registered
  operator name: when the constructor accepts the column followed by \<open>to_list(v)\<close>,
  \<open>filter_by\<close> adds what it returns, and \<open>exclude_by\<close> adds a clause inside one negation.
  For a value that is neither \<open>None\<close> nor a list these arguments are the column and the
  value.
\<close>

lemma lookup_operator_key:
  assumes "S (joinpoint_zero q) col = Some (Column ent name)"
    and "split_dunder [] key = [col, opn]"
    and "underscore_operators opn = Some op"
    and "to_list v = Some args"
    and "op (Column ent name) args = Inr r"
  shows "filter_by S q [(key, v)] = Inr (q\<lparr>calls := calls q @ [Filter r, ResetJoinpoint]\<rparr>)"
    and "r = Clause e \<Longrightarrow>
         exclude_by S q [(key, v)]
           = Inr (q\<lparr>calls := calls q @ [Filter (Clause (Not e)), ResetJoinpoint]\<rparr>)"
  using assms
  by (simp_all add: filter_by_def exclude_by_def lookup_entry_def entity_descriptor_def
      negate_if_def filter_q_def reset_joinpoint_def)

lemma to_list_scalar: "v \<noteq> PNone \<Longrightarrow> (\<forall>xs. v \<noteq> PList xs) \<Longrightarrow> to_list v = Some [v]"
  by (cases v) auto

text \<open>A key that is one token naming a column of the entity at the join point.\<close>

lemma lookup_column_key:
  assumes "S (joinpoint_zero q) col = Some (Column ent name)"
    and "split_dunder [] key = [col]"
  shows "filter_by S q [(key, v)]
           = Inr (q\<lparr>calls := calls q @
                   [Filter (Clause (Compare Eq (Column ent name) v)), ResetJoinpoint]\<rparr>)"
    and "exclude_by S q [(key, v)]
           = Inr (q\<lparr>calls := calls q @
                   [Filter (Clause (Not (Compare Eq (Column ent name) v))), ResetJoinpoint]\<rparr>)"
  using assms
  by (simp_all add: filter_by_def exclude_by_def lookup_entry_def entity_descriptor_def
      negate_if_def filter_q_def reset_joinpoint_def)

subsection \<open>The load-state classifier and the serialization view\<close>

lemma post_instance_loaded:
  "get_entity_loaded_propnames (state post_instance) = {''id'', ''pub_date''}"
  by (auto simp: post_instance_def get_entity_loaded_propnames_def get_entity_propnames_def
      Let_def)

text \<open>
  C3. \<open>get_entity_loaded_propnames\<close> returns the declared names (columns and
  relationships), without the unloaded names when the instance is not transient, together
  with the expired attribute names when the instance is expired. For a transient instance
  every declared name is returned, the result does not depend on the unloaded set, and it
  is exactly the declared set when the expired names are declared names.
\<close>

theorem loaded_propnames_state_rule:
  "get_entity_loaded_propnames ins =
     ((set (column_attrs ins) \<union> set (relationships ins))
        - (if transient ins then {} else unloaded ins))
     \<union> (if expired ins then expired_attributes ins else {})
   \<and> (transient ins \<longrightarrow>
        set (column_attrs ins) \<union> set (relationships ins) \<subseteq> get_entity_loaded_propnames ins
        \<and> get_entity_loaded_propnames (ins\<lparr>unloaded := U\<rparr>) = get_entity_loaded_propnames ins
        \<and> (expired_attributes ins \<subseteq> set (column_attrs ins) \<union> set (relationships ins) \<longrightarrow>
             get_entity_loaded_propnames ins = set (column_attrs ins) \<union> set (relationships ins)))"
  by (auto simp: get_entity_loaded_propnames_def get_entity_propnames_def Let_def)

theorem loaded_propnames_state_rule_witness:
  "transient transient_state
   \<and> expired_attributes transient_state
       \<subseteq> set (column_attrs transient_state) \<union> set (relationships transient_state)
   \<and> unloaded transient_state = {''name''}
   \<and> get_entity_loaded_propnames transient_state = {''id'', ''name''}"
  using loaded_propnames_state_rule [of transient_state "{}"]
  by (simp add: transient_state_def)

text \<open>
  C4, as stated, fails: \<open>__json__\<close> removes only the set it is called with. An instance
  whose class declares \<open>__exclude_columns__ = ['pub_date']\<close>, serialized with the per-call
  set \<open>{'id'}\<close>, still has the key \<open>pub_date\<close>.
\<close>

theorem json_exclusion_union_counterexample:
  "class_exclude_columns post_instance = {''pub_date''}
   \<and> get_entity_loaded_propnames (state post_instance) = {''id'', ''pub_date''}
   \<and> dom (json post_instance {''id''}) = {''pub_date''}
   \<and> dom (json post_instance {''id''}) \<noteq>
       get_entity_loaded_propnames (state post_instance)
         - ({''id''} \<union> class_exclude_columns post_instance)"
  by (auto simp: json_def dom_def post_instance_def class_exclude_columns_def
      get_entity_loaded_propnames_def get_entity_propnames_def Let_def)

text \<open>
  C4, amended. The keys of \<open>__json__(exclude)\<close> are exactly the loaded names that are
  not in \<open>exclude\<close>, each with the value attribute access reads; the encoder hook calls
  \<open>__json__\<close> with the class's \<open>__exclude_columns__\<close> as that set, the empty set when the
  class declares none, in which case every loaded name is a key.
\<close>

theorem json_keys_amended:
  "dom (json m ex) = get_entity_loaded_propnames (state m) - ex
   \<and> (\<forall>name \<in> dom (json m ex). json m ex name = Some (getattr m name))
   \<and> encoder_default (Model m) = Inr (json m (class_exclude_columns m))
   \<and> (exclude_columns_attr m = None \<longrightarrow>
        (\<exists>r. encoder_default (Model m) = Inr r \<and> dom r = get_entity_loaded_propnames (state m)))"
  by (auto simp: json_def dom_def encoder_default_def class_exclude_columns_def
      split: if_splits)

theorem json_keys_amended_witness:
  "dom (json post_instance {''pub_date''}) = {''id''}
   \<and> ''id'' \<in> dom (json post_instance {''pub_date''})
   \<and> json post_instance {''pub_date''} ''id'' = Some (PInt 42)
   \<and> exclude_columns_attr (post_instance\<lparr>exclude_columns_attr := None\<rparr>) = None
   \<and> (\<exists>r. encoder_default (Model (post_instance\<lparr>exclude_columns_attr := None\<rparr>)) = Inr r
          \<and> dom r = {''id'', ''pub_date''})"
proof -
  have d: "dom (json post_instance {''pub_date''}) = {''id''}"
    using json_keys_amended [of post_instance "{''pub_date''}"]
    by (simp only: post_instance_loaded) auto
  have g: "getattr post_instance ''id'' = PInt 42"
    by (simp add: post_instance_def)
  have v: "json post_instance {''pub_date''} ''id'' = Some (PInt 42)"
    using json_keys_amended [of post_instance "{''pub_date''}"] d g by simp
  have s: "state (post_instance\<lparr>exclude_columns_attr := None\<rparr>) = state post_instance"
    by simp
  have n: "exclude_columns_attr (post_instance\<lparr>exclude_columns_attr := None\<rparr>) = None"
    by simp
  from json_keys_amended [of "post_instance\<lparr>exclude_columns_attr := None\<rparr>" "{}"] n
  have "\<exists>r. encoder_default (Model (post_instance\<lparr>exclude_columns_attr := None\<rparr>)) = Inr r
          \<and> dom r = get_entity_loaded_propnames
                       (state (post_instance\<lparr>exclude_columns_attr := None\<rparr>))"
    by blast
  then have e: "\<exists>r. encoder_default (Model (post_instance\<lparr>exclude_columns_attr := None\<rparr>)) = Inr r
          \<and> dom r = {''id'', ''pub_date''}"
    by (simp only: s post_instance_loaded)
  from d v e show ?thesis by simp
qed

subsection \<open>The lookup operators\<close>

text \<open>
  C5. The \<open>isnull\<close> lambda compares the descriptor object with \<open>None\<close> by identity, so
  what it returns is a host boolean and not a clause on the column: \<open>id__isnull=True\<close>
  filters by the constant \<open>True\<close> and \<open>id__isnull=False\<close> by the constant \<open>False\<close>.
\<close>

theorem isnull_builds_host_constant:
  "filter_by blog_schema post_query [(''id__isnull'', PBool True)]
     = Inr \<lparr>base = ''Post'', calls = [Filter (Host (PBool True)), ResetJoinpoint]\<rparr>
   \<and> filter_by blog_schema post_query [(''id__isnull'', PBool False)]
     = Inr \<lparr>base = ''Post'', calls = [Filter (Host (PBool False)), ResetJoinpoint]\<rparr>"
  by (simp add: filter_by_def lookup_entry_def blog_schema_def post_query_def
      entity_descriptor_def joinpoint_zero_def underscore_operators_def op_isnull_def
      is_None_def py_and_def py_or_def negate_if_def filter_q_def reset_joinpoint_def)

text \<open>
  C6. The elements of a list value become positional arguments, so \<open>id__in=[1, 2, 3]\<close>
  calls \<open>in_op(column, 1, 2, 3)\<close>, which the two-parameter \<open>in_op\<close> rejects: the lookup
  raises \<open>TypeError\<close> and no membership predicate is built. Only a list that holds the
  sequence as its one element reaches \<open>in_op\<close> as the sequence.
\<close>

theorem in_list_raises:
  "filter_by blog_schema post_query [(''id__in'', PList [PInt 1, PInt 2, PInt 3])]
     = Inl TypeError
   \<and> filter_by blog_schema post_query [(''id__in'', PList [PList [PInt 1, PInt 2, PInt 3]])]
     = Inr \<lparr>base = ''Post'',
            calls = [Filter (Clause (OpCall in_op (Column ''Post'' ''id'')
                       [PList [PInt 1, PInt 2, PInt 3]])), ResetJoinpoint]\<rparr>"
  by (simp add: filter_by_def lookup_entry_def blog_schema_def post_query_def
      entity_descriptor_def joinpoint_zero_def underscore_operators_def lib_op_def
      negate_if_def filter_q_def reset_joinpoint_def)

subsection \<open>Paths that end on a relationship\<close>

text \<open>
  C2. A lookup whose path ends on a relationship raises nothing in \<open>filter_by\<close>:
  \<open>Post.query.filter_by(blog=1)\<close> returns the query with the join and the join-point
  reset and with no filter, the value being dropped; the same path in \<open>order_by\<close> raises
  the \<open>ValueError\<close> of a table where a column is expected.
\<close>

theorem relationship_lookup_dropped:
  "filter_by blog_schema post_query [(''blog'', PInt 1)]
     = Inr \<lparr>base = ''Post'',
            calls = [Join (Relationship ''Post'' ''blog'' ''Blog''), ResetJoinpoint]\<rparr>
   \<and> order_by blog_schema post_query [StrArg ''blog''] = Inl OrderByTable"
  by (simp add: filter_by_def lookup_entry_def blog_schema_def post_query_def
      entity_descriptor_def joinpoint_zero_def join_q_def reset_joinpoint_def
      order_by_def order_term_def)

subsection \<open>The joins of order_by\<close>

lemma joinpoint_after_join:
  "joinpoint_after b e (cs @ [Join (Relationship x y t)]) = t"
  by (induction b e cs rule: joinpoint_after.induct) simp_all

lemma joinpoint_zero_join_q:
  "joinpoint_zero (join_q q (Relationship x y t)) = t"
  by (simp add: joinpoint_zero_def join_q_def joinpoint_after_join)

lemma order_tokens_loop_relationships:
  "order_tokens_loop S (q, c, js) ts = Inr (q', c', js') \<Longrightarrow>
     js' = js @ path_relationships S (joinpoint_zero q) ts"
proof (induction ts arbitrary: q c js)
  case Nil
  then show ?case by simp
next
  case (Cons t ts)
  from Cons.prems obtain col where
    d: "S (joinpoint_zero q) t = Some col"
    by (auto simp: entity_descriptor_def split: option.splits)
  show ?case
  proof (cases col)
    case (Column a b)
    with d Cons.prems have "order_tokens_loop S (q, Some col, js) ts = Inr (q', c', js')"
      by (simp add: entity_descriptor_def)
    from Cons.IH [OF this] d Column show ?thesis by simp
  next
    case (Relationship a b target)
    with d Cons.prems have
      "order_tokens_loop S (join_q q col, None, js @ [col]) ts = Inr (q', c', js')"
      by (simp add: entity_descriptor_def)
    from Cons.IH [OF this] d Relationship show ?thesis
      by (simp add: joinpoint_zero_join_q)
  next
    case (UserAttr a b)
    with d Cons.prems show ?thesis by (simp add: entity_descriptor_def)
  qed
qed

lemma order_term_relationships:
  "order_term S self js arg = Inr (k, js') \<Longrightarrow>
     js' = js @ path_relationships S (joinpoint_zero self) (split_dunder [] (strip_sign arg))"
proof (cases arg)
  case Nil
  assume "order_term S self js arg = Inr (k, js')"
  with Nil show ?thesis by (simp add: order_term_def)
next
  case (Cons c rest)
  assume a: "order_term S self js arg = Inr (k, js')"
  let ?ts = "split_dunder [] (strip_sign arg)"
  from Cons have ts: "?ts = split_dunder []
      (if c = CHR ''+'' \<or> c = CHR ''-'' then rest else arg)"
    by (simp add: strip_sign_def)
  from a Cons ts obtain q' column where
    "order_tokens_loop S (self, None, js) ?ts = Inr (q', Some column, js')"
    by (auto simp: order_term_def Let_def split: sum.splits option.splits if_splits)
  from order_tokens_loop_relationships [OF this] show ?thesis .
qed

lemma order_args_loop_relationships:
  "order_args_loop S self js0 args = Inr (ks, js) \<Longrightarrow>
     js = js0 @ concat (map (arg_relationships S (joinpoint_zero self)) args)
     \<and> length ks = length args"
proof (induction args arbitrary: js0 ks js)
  case Nil
  then show ?case by simp
next
  case (Cons a args)
  show ?case
  proof (cases a)
    case (OtherArg k)
    with Cons.prems obtain ks' where
      r: "order_args_loop S self js0 args = Inr (ks', js)" and k: "ks = k # ks'"
      by (auto split: sum.splits)
    from Cons.IH [OF r] OtherArg k show ?thesis by (simp add: arg_relationships_def)
  next
    case (StrArg s)
    with Cons.prems obtain k js1 ks' where
      t: "order_term S self js0 s = Inr (k, js1)" and
      r: "order_args_loop S self js1 args = Inr (ks', js)" and k: "ks = k # ks'"
      by (auto split: sum.splits)
    from order_term_relationships [OF t]
    have "js1 = js0 @ arg_relationships S (joinpoint_zero self) (StrArg s)"
      by (simp add: arg_relationships_def)
    with Cons.IH [OF r] StrArg k show ?thesis by simp
  qed
qed

lemma calls_foldl_join_q: "calls (foldl join_q q js) = calls q @ map Join js"
  by (induction js arbitrary: q) (simp_all add: join_q_def)

lemma base_foldl_join_q: "base (foldl join_q q js) = base q"
  by (induction js arbitrary: q) (simp_all add: join_q_def)

text \<open>
  C7, as stated, fails: the relationships are not made unique. Two terms through the
  same relationship, \<open>order_by('blog__name', 'blog__id')\<close>, make two \<open>join\<close> calls on
  \<open>blog\<close>.
\<close>

theorem order_by_joins_unique_counterexample:
  "order_by blog_schema post_query [StrArg ''blog__name'', StrArg ''blog__id'']
     = Inr \<lparr>base = ''Post'',
            calls = [OrderBy [Key (Column ''Blog'' ''name''), Key (Column ''Blog'' ''id'')],
                     Join (Relationship ''Post'' ''blog'' ''Blog''),
                     Join (Relationship ''Post'' ''blog'' ''Blog'')]\<rparr>
   \<and> \<not> distinct (joins_of
          [OrderBy [Key (Column ''Blog'' ''name''), Key (Column ''Blog'' ''id'')],
           Join (Relationship ''Post'' ''blog'' ''Blog''),
           Join (Relationship ''Post'' ''blog'' ''Blog'')])"
  by (simp add: order_by_def order_term_def blog_schema_def post_query_def
      entity_descriptor_def joinpoint_zero_def join_q_def order_by_base_def)

text \<open>
  C7, amended. When \<open>order_by\<close> returns, the calls it added to the query are the
  ordering clause, with one criterion per argument, followed by one \<open>join\<close> call for each
  relationship token on the paths of the string terms, as the schema gives them from
  the entity at the query's join point, in the order met, term after term, repetitions
  included.
\<close>

theorem order_by_joins_amended:
  "order_by S self args = Inr q \<Longrightarrow>
     base q = base self
     \<and> (\<exists>ks. length ks = length args
           \<and> calls q = calls self @ OrderBy ks #
                 map Join (concat (map (arg_relationships S (joinpoint_zero self)) args)))"
proof -
  assume a: "order_by S self args = Inr q"
  then obtain ks js where
    l: "order_args_loop S self [] args = Inr (ks, js)" and
    q: "q = foldl join_q (order_by_base self ks) js"
    by (auto simp: order_by_def split: sum.splits)
  from order_args_loop_relationships [OF l]
  have js: "js = concat (map (arg_relationships S (joinpoint_zero self)) args)"
    and n: "length ks = length args"
    by simp_all
  from q have "base q = base self"
    by (simp add: base_foldl_join_q order_by_base_def)
  moreover from q js have
    "calls q = calls self @ OrderBy ks #
       map Join (concat (map (arg_relationships S (joinpoint_zero self)) args))"
    by (simp add: calls_foldl_join_q order_by_base_def)
  ultimately show ?thesis using n by blast
qed

theorem order_by_joins_amended_witness:
  "order_by blog_schema post_query [StrArg ''-blog__name'', StrArg ''blog__id'']
     = Inr \<lparr>base = ''Post'',
            calls = [OrderBy [Desc (Column ''Blog'' ''name''), Key (Column ''Blog'' ''id'')],
                     Join (Relationship ''Post'' ''blog'' ''Blog''),
                     Join (Relationship ''Post'' ''blog'' ''Blog'')]\<rparr>
   \<and> concat (map (arg_relationships blog_schema (joinpoint_zero post_query))
         [StrArg ''-blog__name'', StrArg ''blog__id''])
       = [Relationship ''Post'' ''blog'' ''Blog'', Relationship ''Post'' ''blog'' ''Blog'']
   \<and> (\<exists>ks. length ks = length [StrArg ''-blog__name'', StrArg ''blog__id'']
          \<and> calls \<lparr>base = ''Post'',
                 calls = [OrderBy [Desc (Column ''Blog'' ''name''),
                            Key (Column ''Blog'' ''id'')],
                          Join (Relationship ''Post'' ''blog'' ''Blog''),
                          Join (Relationship ''Post'' ''blog'' ''Blog'')]\<rparr>
            = calls post_query @ OrderBy ks #
                map Join [Relationship ''Post'' ''blog'' ''Blog'',
                          Relationship ''Post'' ''blog'' ''Blog''])"
proof -
  have r: "order_by blog_schema post_query [StrArg ''-blog__name'', StrArg ''blog__id'']
     = Inr \<lparr>base = ''Post'',
            calls = [OrderBy [Desc (Column ''Blog'' ''name''), Key (Column ''Blog'' ''id'')],
                     Join (Relationship ''Post'' ''blog'' ''Blog''),
                     Join (Relationship ''Post'' ''blog'' ''Blog'')]\<rparr>"
    by (simp add: order_by_def order_term_def blog_schema_def post_query_def
        entity_descriptor_def joinpoint_zero_def join_q_def order_by_base_def)
  have p: "concat (map (arg_relationships blog_schema (joinpoint_zero post_query))
         [StrArg ''-blog__name'', StrArg ''blog__id''])
       = [Relationship ''Post'' ''blog'' ''Blog'', Relationship ''Post'' ''blog'' ''Blog'']"
    by (simp add: arg_relationships_def strip_sign_def blog_schema_def post_query_def
        joinpoint_zero_def)
  from order_by_joins_amended [OF r] have
    "\<exists>ks. length ks = length [StrArg ''-blog__name'', StrArg ''blog__id'']
          \<and> calls \<lparr>base = ''Post'',
                 calls = [OrderBy [Desc (Column ''Blog'' ''name''),
                            Key (Column ''Blog'' ''id'')],
                          Join (Relationship ''Post'' ''blog'' ''Blog''),
                          Join (Relationship ''Post'' ''blog'' ''Blog'')]\<rparr>
            = calls post_query @ OrderBy ks #
                map Join (concat (map (arg_relationships blog_schema (joinpoint_zero post_query))
                  [StrArg ''-blog__name'', StrArg ''blog__id'']))"
    by (rule conjunct2)
  then have e: "\<exists>ks. length ks = length [StrArg ''-blog__name'', StrArg ''blog__id'']
          \<and> calls \<lparr>base = ''Post'',
                 calls = [OrderBy [Desc (Column ''Blog'' ''name''),
                            Key (Column ''Blog'' ''id'')],
                          Join (Relationship ''Post'' ''blog'' ''Blog''),
                          Join (Relationship ''Post'' ''blog'' ''Blog'')]\<rparr>
            = calls post_query @ OrderBy ks #
                map Join [Relationship ''Post'' ''blog'' ''Blog'',
                          Relationship ''Post'' ''blog'' ''Blog'']"
    by (simp only: p)
  from r p e show ?thesis by (intro conjI)
qed

subsection \<open>order_by on the empty string\<close>

lemma order_term_empty: "order_term S self js [] = Inl IndexError"
  by (simp add: order_term_def)

lemma order_args_loop_empty_term:
  "StrArg [] \<in> set args \<Longrightarrow> \<exists>e. order_args_loop S self js args = Inl e"
proof (induction args arbitrary: js)
  case Nil
  then show ?case by simp
next
  case (Cons a args)
  show ?case
  proof (cases a)
    case (OtherArg k)
    with Cons.prems have "StrArg [] \<in> set args" by auto
    from Cons.IH [OF this] obtain e where "order_args_loop S self js args = Inl e" by blast
    with OtherArg show ?thesis by simp
  next
    case (StrArg s)
    show ?thesis
    proof (cases "order_term S self js s")
      case (Inl e)
      with StrArg show ?thesis by simp
    next
      case (Inr r)
      then have "s \<noteq> []" by (auto simp: order_term_empty)
      with StrArg Cons.prems have "StrArg [] \<in> set args" by auto
      from Cons.IH [OF this] obtain e where "order_args_loop S self (snd r) args = Inl e"
        by blast
      with StrArg Inr show ?thesis by (cases r) simp
    qed
  qed
qed

text \<open>
  C10. \<open>order_by\<close> with the empty string as a term raises: alone it raises the
  \<open>IndexError\<close> of \<open>arg[0]\<close>, and among other terms the call raises some exception and
  never returns a query.
\<close>

theorem order_by_empty_string_raises:
  "order_by S self [StrArg ''''] = Inl IndexError
   \<and> (StrArg '''' \<in> set args \<longrightarrow> (\<exists>e. order_by S self args = Inl e))"
proof (intro conjI impI)
  show "order_by S self [StrArg ''''] = Inl IndexError"
    by (simp add: order_by_def order_term_empty)
next
  assume "StrArg '''' \<in> set args"
  then obtain e where "order_args_loop S self [] args = Inl e"
    using order_args_loop_empty_term by blast
  then show "\<exists>e. order_by S self args = Inl e"
    by (simp add: order_by_def)
qed

theorem order_by_empty_string_raises_witness:
  "StrArg '''' \<in> set [StrArg ''id'', StrArg '''']
   \<and> (\<exists>e. order_by blog_schema post_query [StrArg ''id'', StrArg ''''] = Inl e)"
  using order_by_empty_string_raises [of blog_schema post_query "[StrArg ''id'', StrArg '''']"]
  by simp

subsection \<open>select_related\<close>

lemma rewrite_columns_eq:
  "rewrite_columns n cols =
     (n \<or> (\<exists>c \<in> set cols. CHR ''.'' \<in> set (replace_dunder c)), map replace_dunder cols)"
  by (induction cols arbitrary: n) (auto simp: Let_def)

lemma filter_depth_nil:
  "fst ` set options \<subseteq> {''depth''} \<Longrightarrow> filter (\<lambda>kv. fst kv \<noteq> ''depth'') options = []"
  by (induction options) auto

lemma filter_depth_cons:
  "k \<in> fst ` set options \<Longrightarrow> k \<noteq> ''depth'' \<Longrightarrow>
   \<exists>kv rest. filter (\<lambda>kv. fst kv \<noteq> ''depth'') options = kv # rest
     \<and> kv \<in> set options \<and> fst kv \<noteq> ''depth''"
proof -
  assume a: "k \<in> fst ` set options" "k \<noteq> ''depth''"
  let ?f = "filter (\<lambda>kv. fst kv \<noteq> ''depth'') options"
  from a obtain v where "(k, v) \<in> set ?f" by auto
  then obtain kv rest where e: "?f = kv # rest" by (cases ?f) auto
  then have "kv \<in> set ?f" by simp
  then have "kv \<in> set options \<and> fst kv \<noteq> ''depth''" by simp
  with e show ?thesis by blast
qed

text \<open>
  C8. \<open>select_related\<close> raises the \<open>TypeError\<close> naming an offending key when a keyword
  other than \<open>depth\<close> is given; otherwise it raises the \<open>TypeError\<close> on the depth when the
  depth equals neither \<open>None\<close> nor \<open>1\<close>; otherwise it returns the query with one more
  option and nothing else: \<open>joinedload_all\<close> of the rewritten paths when the depth is
  \<open>None\<close> or a rewritten path contains a dot, \<open>joinedload\<close> of them when not.
\<close>

theorem select_related_cases:
  "(k \<in> fst ` set options \<and> k \<noteq> ''depth'' \<longrightarrow>
      (\<exists>k'. select_related self columns options = Inl (UnexpectedArgument k')
            \<and> k' \<in> fst ` set options \<and> k' \<noteq> ''depth''))
   \<and> (fst ` set options \<subseteq> {''depth''}
        \<and> \<not> py_eq (pop_depth options) PNone \<and> \<not> py_eq (pop_depth options) (PInt 1) \<longrightarrow>
      select_related self columns options = Inl BadDepth)
   \<and> (fst ` set options \<subseteq> {''depth''}
        \<and> (py_eq (pop_depth options) PNone \<or> py_eq (pop_depth options) (PInt 1)) \<longrightarrow>
      select_related self columns options =
        Inr (self\<lparr>calls := calls self @
              [Options (if pop_depth options = PNone
                           \<or> (\<exists>c \<in> set columns. CHR ''.'' \<in> set (replace_dunder c))
                        then joinedload_all (map replace_dunder columns)
                        else joinedload (map replace_dunder columns))]\<rparr>))"
proof (intro conjI impI)
  assume "k \<in> fst ` set options \<and> k \<noteq> ''depth''"
  then obtain kv rest where
    "filter (\<lambda>kv. fst kv \<noteq> ''depth'') options = kv # rest"
    "kv \<in> set options" "fst kv \<noteq> ''depth''"
    using filter_depth_cons by blast
  then show "\<exists>k'. select_related self columns options = Inl (UnexpectedArgument k')
            \<and> k' \<in> fst ` set options \<and> k' \<noteq> ''depth''"
    by (auto simp: select_related_def Let_def)
next
  assume "fst ` set options \<subseteq> {''depth''}
        \<and> \<not> py_eq (pop_depth options) PNone \<and> \<not> py_eq (pop_depth options) (PInt 1)"
  then show "select_related self columns options = Inl BadDepth"
    using filter_depth_nil [of options] by (simp add: select_related_def Let_def)
next
  assume "fst ` set options \<subseteq> {''depth''}
        \<and> (py_eq (pop_depth options) PNone \<or> py_eq (pop_depth options) (PInt 1))"
  then show "select_related self columns options =
        Inr (self\<lparr>calls := calls self @
              [Options (if pop_depth options = PNone
                           \<or> (\<exists>c \<in> set columns. CHR ''.'' \<in> set (replace_dunder c))
                        then joinedload_all (map replace_dunder columns)
                        else joinedload (map replace_dunder columns))]\<rparr>)"
    using filter_depth_nil [of options]
    by (simp add: select_related_def Let_def rewrite_columns_eq options_q_def)
qed

theorem select_related_cases_witness:
  "select_related post_query [''comments''] [] =
      Inr \<lparr>base = ''Post'', calls = [Options (joinedload_all [''comments''])]\<rparr>
   \<and> select_related post_query [''comments''] [(''depth'', PInt 1)] =
      Inr \<lparr>base = ''Post'', calls = [Options (joinedload [''comments''])]\<rparr>
   \<and> select_related post_query [''blog__owner''] [(''depth'', PInt 1)] =
      Inr \<lparr>base = ''Post'', calls = [Options (joinedload_all [''blog.owner''])]\<rparr>
   \<and> select_related post_query [] [(''depth'', PInt 2)] = Inl BadDepth
   \<and> select_related post_query [] [(''deep'', PInt 1)] = Inl (UnexpectedArgument ''deep'')"
  using select_related_cases [of "''deep''" "[]" post_query "[''comments'']"]
    select_related_cases [of "''deep''" "[(''depth'', PInt 1)]" post_query "[''comments'']"]
    select_related_cases [of "''deep''" "[(''depth'', PInt 1)]" post_query "[''blog__owner'']"]
    select_related_cases [of "''deep''" "[(''depth'', PInt 2)]" post_query "[]"]
    select_related_cases [of "''deep''" "[(''deep'', PInt 1)]" post_query "[]"]
  by (simp add: pop_depth_def post_query_def)

end
